theory Spec2Isabelle
  imports Complex_Main
begin

section \<open>Three nearest neighbours for vector pooling, in two steps\<close>

text \<open>
  A shallow embedding of \<^verbatim>\<open>ThreeNNVectorPoolByTwoStep.forward\<close>
  (\<^verbatim>\<open>mmcv/ops/ThreeNNForVectorPoolByTwoStep.py\<close>).

  Python integers are \<open>int\<close>. Float tensors hold \<open>real\<close> numbers and
  \<^verbatim>\<open>torch.sqrt\<close> is the real square root. A tensor of shape \<open>(N, 3)\<close> of
  coordinates is a list of points, a tensor of shape \<open>(M, 2)\<close> a list of pairs, and the
  output tensors of shape \<open>(M, G, 3)\<close> are lists of lists of lists. The one-element tensor
  \<^verbatim>\<open>cumsum\<close> is its single entry.

  The two calls into the compiled extension mutate tensors in place. In the model each
  call is a function from the tensors it is handed to the tensors it leaves behind, and
  \<open>forward\<close> takes both functions as arguments, after the number of entries the
  allocator can provide for the candidate buffer.
\<close>

subsection \<open>Data\<close>

datatype py_error = ZeroDivisionError | RuntimeError

type_synonym point = "real \<times> real \<times> real"

record forward_args =
  xyz :: "point list"
  xyz_batch_cnt :: "int list"
  new_xyz :: "point list"
  new_xyz_grid_centers :: "point list list"
  new_xyz_batch_cnt :: "int list"
  max_neighbour_distance :: real
  nsample :: int
  neighbor_type :: int
  avg_length_of_neighbor_idxs :: int
  num_total_grids :: int
  neighbor_distance_multiplier :: real

text \<open>The arguments of \<^verbatim>\<open>ext_module.stack_query_local_neighbor_idxs\<close>, in call order,
  and the three tensors it writes.\<close>

record scan_args =
  sa_xyz :: "point list"
  sa_xyz_batch_cnt :: "int list"
  sa_new_xyz :: "point list"
  sa_new_xyz_batch_cnt :: "int list"
  sa_stack_neighbor_idxs :: "int list"
  sa_start_len :: "(int \<times> int) list"
  sa_cumsum :: int
  sa_avg_length_of_neighbor_idxs :: int
  sa_max_neighbour_distance :: real
  sa_nsample :: int
  sa_neighbor_type :: int

record scan_out =
  so_stack_neighbor_idxs :: "int list"
  so_start_len :: "(int \<times> int) list"
  so_cumsum :: int

text \<open>The arguments of \<^verbatim>\<open>ext_module.stack_query_three_nn_local_idxs\<close>, in call order,
  and the two tensors it writes.\<close>

record refine_args =
  ra_xyz :: "point list"
  ra_new_xyz :: "point list"
  ra_new_xyz_grid_centers :: "point list list"
  ra_new_xyz_grid_idxs :: "int list list list"
  ra_new_xyz_grid_dist2 :: "real list list list"
  ra_stack_neighbor_idxs :: "int list"
  ra_start_len :: "(int \<times> int) list"
  ra_num_new_xyz :: int
  ra_num_total_grids :: int

record refine_out =
  ro_new_xyz_grid_idxs :: "int list list list"
  ro_new_xyz_grid_dist2 :: "real list list list"

text \<open>One pass of the loop, once the scan has run: the capacity of the pass, what the scan
  was handed and what it left in the three tensors.\<close>

record pass =
  p_num_max_sum_points :: int
  p_call :: scan_args
  p_stack_neighbor_idxs :: "int list"
  p_start_len :: "(int \<times> int) list"
  p_cumsum :: int

subsection \<open>The body of \<open>forward\<close>\<close>

text \<open>\<^verbatim>\<open>new_xyz_grid_centers.new_zeros(new_xyz_grid_centers.shape)\<close> and the same
  tensor after \<^verbatim>\<open>.int().fill_(-1)\<close>.\<close>

definition new_zeros_grid :: "point list list \<Rightarrow> real list list list" where
  "new_zeros_grid centers = map (map (\<lambda>_. [0, 0, 0])) centers"

definition new_fill_grid :: "point list list \<Rightarrow> int list list list" where
  "new_fill_grid centers = map (map (\<lambda>_. [- 1, - 1, - 1])) centers"

text \<open>Lines 62 to 74: the tensors allocated at the head of an iteration and handed to the
  scan, for the estimate \<open>avg\<close> of that iteration.\<close>

definition scan_call :: "forward_args \<Rightarrow> int \<Rightarrow> scan_args" where
  "scan_call inp avg =
     (let num_new_xyz = length (new_xyz inp);
          num_max_sum_points = avg * int num_new_xyz
      in \<lparr> sa_xyz = xyz inp,
           sa_xyz_batch_cnt = xyz_batch_cnt inp,
           sa_new_xyz = new_xyz inp,
           sa_new_xyz_batch_cnt = new_xyz_batch_cnt inp,
           sa_stack_neighbor_idxs = replicate (nat num_max_sum_points) 0,
           sa_start_len = replicate num_new_xyz (0, 0),
           sa_cumsum = 0,
           sa_avg_length_of_neighbor_idxs = avg,
           sa_max_neighbour_distance =
             max_neighbour_distance inp * neighbor_distance_multiplier inp,
           sa_nsample = nsample inp,
           sa_neighbor_type = neighbor_type inp \<rparr>)"

definition gather_pass :: "(scan_args \<Rightarrow> scan_out) \<Rightarrow> forward_args \<Rightarrow> int \<Rightarrow> pass" where
  "gather_pass scan inp avg =
     (let call = scan_call inp avg;
          out = scan call
      in \<lparr> p_num_max_sum_points = avg * int (length (new_xyz inp)),
           p_call = call,
           p_stack_neighbor_idxs = so_stack_neighbor_idxs out,
           p_start_len = so_start_len out,
           p_cumsum = so_cumsum out \<rparr>)"

text \<open>Lines 75 and 76: Python's \<^verbatim>\<open>//\<close> and \<^verbatim>\<open>%\<close> round towards minus infinity, as
  \<open>div\<close> and \<open>mod\<close> on \<open>int\<close> do, and raise on a zero divisor.\<close>

definition recompute_avg :: "int \<Rightarrow> int \<Rightarrow> py_error + int" where
  "recompute_avg cumsum num_new_xyz =
     (if num_new_xyz = 0 then Inl ZeroDivisionError
      else Inr (cumsum div num_new_xyz + (if cumsum mod num_new_xyz > 0 then 1 else 0)))"

text \<open>
  Line 63: \<^verbatim>\<open>new_zeros\<close> raises a \<^verbatim>\<open>RuntimeError\<close> on a negative size, and on a size
  the allocator cannot provide. \<open>max_numel\<close> is the largest number of entries it can
  provide for the candidate buffer; an empty buffer is always provided. The other tensors
  \<open>forward\<close> allocates are no larger than the tensors the caller passes in, and are
  taken to be allocated.
\<close>

definition new_zeros_raises :: "nat \<Rightarrow> int \<Rightarrow> bool" where
  "new_zeros_raises max_numel numel \<longleftrightarrow> numel < 0 \<or> int max_numel < numel"

text \<open>
  Lines 61 to 79. The loop has no bound, so it is a partial function: \<open>None\<close> is a run
  that never leaves the loop. The list \<open>tr\<close> is the log of the passes whose scan has
  run, oldest first; the result is the log and either the error raised or the accepted
  pass with the estimate recomputed from it.
\<close>

partial_function (option) gather_loop ::
  "nat \<Rightarrow> (scan_args \<Rightarrow> scan_out) \<Rightarrow> forward_args \<Rightarrow> int \<Rightarrow> pass list
     \<Rightarrow> (pass list \<times> (py_error + pass \<times> int)) option" where
  "gather_loop max_numel scan inp avg tr =
     (if new_zeros_raises max_numel (avg * int (length (new_xyz inp)))
      then Some (tr, Inl RuntimeError)
      else
        (case recompute_avg (p_cumsum (gather_pass scan inp avg)) (int (length (new_xyz inp))) of
           Inl e \<Rightarrow> Some (tr @ [gather_pass scan inp avg], Inl e)
         | Inr avg' \<Rightarrow>
             if p_cumsum (gather_pass scan inp avg)
                  \<le> p_num_max_sum_points (gather_pass scan inp avg)
             then Some (tr @ [gather_pass scan inp avg], Inr (gather_pass scan inp avg, avg'))
             else gather_loop max_numel scan inp avg' (tr @ [gather_pass scan inp avg])))"

text \<open>Line 81: a Python slice \<^verbatim>\<open>t[:c]\<close>; a negative \<open>c\<close> counts from the end.\<close>

definition slice_to :: "'a list \<Rightarrow> int \<Rightarrow> 'a list" where
  "slice_to t c = (if c < 0 then take (nat (int (length t) + c)) t else take (nat c) t)"

text \<open>Lines 81 to 85: what the refiner is handed after the pass \<open>p\<close> was accepted.\<close>

definition refine_call :: "forward_args \<Rightarrow> pass \<Rightarrow> refine_args" where
  "refine_call inp p =
     \<lparr> ra_xyz = xyz inp,
       ra_new_xyz = new_xyz inp,
       ra_new_xyz_grid_centers = new_xyz_grid_centers inp,
       ra_new_xyz_grid_idxs = new_fill_grid (new_xyz_grid_centers inp),
       ra_new_xyz_grid_dist2 = new_zeros_grid (new_xyz_grid_centers inp),
       ra_stack_neighbor_idxs = slice_to (p_stack_neighbor_idxs p) (p_cumsum p),
       ra_start_len = p_start_len p,
       ra_num_new_xyz = int (length (new_xyz inp)),
       ra_num_total_grids = num_total_grids inp \<rparr>"

definition sqrt_grid :: "real list list list \<Rightarrow> real list list list" where
  "sqrt_grid t = map (map (map sqrt)) t"

text \<open>The whole of \<open>forward\<close>, on a machine whose allocator provides \<open>max_numel\<close>
  entries: the distances, the indices and the final estimate.\<close>

definition forward ::
  "nat \<Rightarrow> (scan_args \<Rightarrow> scan_out) \<Rightarrow> (refine_args \<Rightarrow> refine_out) \<Rightarrow> forward_args
     \<Rightarrow> (py_error + real list list list \<times> int list list list \<times> int) option" where
  "forward max_numel scan refine inp =
     (case gather_loop max_numel scan inp (avg_length_of_neighbor_idxs inp) [] of
        None \<Rightarrow> None
      | Some (tr, Inl e) \<Rightarrow> Some (Inl e)
      | Some (tr, Inr (p, avg)) \<Rightarrow>
          (let out = refine (refine_call inp p)
           in Some (Inr (sqrt_grid (ro_new_xyz_grid_dist2 out), ro_new_xyz_grid_idxs out, avg))))"

subsection \<open>The extension calls\<close>

text \<open>Modelled from the spec: the batch element that owns a flat position, for the
  compiled scan \<^verbatim>\<open>stack_query_local_neighbor_idxs\<close>, which is not among the sources.
  Batch element \<open>i\<close> owns the positions from the sum of the counts before \<open>i\<close> up to
  that sum plus its own count; a position beyond every run has no batch element.\<close>

fun batch_of :: "int list \<Rightarrow> int \<Rightarrow> nat option" where
  "batch_of [] m = None"
| "batch_of (cnt # cnts) m =
     (if m < cnt then Some 0 else map_option Suc (batch_of cnts (m - cnt)))"

text \<open>Modelled from the spec: the flat indices of the source points of batch element \<open>b\<close>,
  in order, for the same missing scan. A batch element the count vector does not have owns
  no point.\<close>

definition batch_points :: "int list \<Rightarrow> nat \<Rightarrow> int list" where
  "batch_points cnts b =
     (if b < length cnts
      then map (\<lambda>k. sum_list (take b cnts) + int k) [0..<nat (cnts ! b)]
      else [])"

text \<open>Modelled from the spec: the distance predicate of the missing scan. For a ball the
  Euclidean distance is at most the radius, for a cube each axis differs by at most the
  radius. The docstring of \<open>forward\<close> gives the encoding: 1 is a ball, anything else a
  cube.\<close>

fun in_neighborhood :: "int \<Rightarrow> real \<Rightarrow> point \<Rightarrow> point \<Rightarrow> bool" where
  "in_neighborhood kind r (cx, cy, cz) (sx, sy, sz) =
     (if kind = 1
      then sqrt ((sx - cx)\<^sup>2 + (sy - cy)\<^sup>2 + (sz - cz)\<^sup>2) \<le> r
      else \<bar>sx - cx\<bar> \<le> r \<and> \<bar>sy - cy\<bar> \<le> r \<and> \<bar>sz - cz\<bar> \<le> r)"

text \<open>Modelled from the spec: the candidates the missing scan accepts for the query center
  at position \<open>m\<close>. Every source point of the matching batch element is tried in order;
  a positive \<open>nsample\<close> caps how many are accepted, zero or a negative value means no cap.\<close>

definition center_candidates :: "scan_args \<Rightarrow> nat \<Rightarrow> point \<Rightarrow> int list" where
  "center_candidates a m center =
     (case batch_of (sa_new_xyz_batch_cnt a) (int m) of
        None \<Rightarrow> []
      | Some b \<Rightarrow>
          (let hits = filter
                 (\<lambda>i. 0 \<le> i \<and> nat i < length (sa_xyz a) \<and>
                      in_neighborhood (sa_neighbor_type a) (sa_max_neighbour_distance a)
                        center (sa_xyz a ! nat i))
                 (batch_points (sa_xyz_batch_cnt a) b)
           in if 0 < sa_nsample a then take (nat (sa_nsample a)) hits else hits))"

text \<open>Modelled from the spec: writing accepted indices into the shared buffer from an
  offset on, for the missing scan. The spec does not range-check the writes; here a write
  past the end of the buffer changes nothing.\<close>

fun write_at :: "'a list \<Rightarrow> nat \<Rightarrow> 'a list \<Rightarrow> 'a list" where
  "write_at buf off [] = buf"
| "write_at buf off (v # vs) = write_at (buf[off := v]) (Suc off) vs"

text \<open>Modelled from the spec: the work of the missing scan for one query center. Its
  candidates go into the buffer at the current value of the counter, its slice record is
  that offset and the number accepted, and the counter advances by the number accepted.\<close>

definition gather_center :: "scan_args \<Rightarrow> nat \<times> point \<Rightarrow> scan_out \<Rightarrow> scan_out" where
  "gather_center a mc s =
     (let cands = center_candidates a (fst mc) (snd mc)
      in \<lparr> so_stack_neighbor_idxs =
             write_at (so_stack_neighbor_idxs s) (nat (so_cumsum s)) cands,
           so_start_len = (so_start_len s)[fst mc := (so_cumsum s, int (length cands))],
           so_cumsum = so_cumsum s + int (length cands) \<rparr>)"

text \<open>Modelled from the spec: the compiled scan \<^verbatim>\<open>stack_query_local_neighbor_idxs\<close>,
  which is not among the sources (section 4.1 of the spec). The query centers are taken
  in order, on the three tensors the caller allocated.\<close>

definition stack_query_local_neighbor_idxs :: "scan_args \<Rightarrow> scan_out" where
  "stack_query_local_neighbor_idxs a =
     fold (gather_center a) (enumerate 0 (sa_new_xyz a))
       \<lparr> so_stack_neighbor_idxs = sa_stack_neighbor_idxs a,
         so_start_len = sa_start_len a,
         so_cumsum = sa_cumsum a \<rparr>"

text \<open>Modelled from the spec: the squared Euclidean distance the missing refiner
  \<^verbatim>\<open>stack_query_three_nn_local_idxs\<close> orders candidates by.\<close>

fun sq_dist :: "point \<Rightarrow> point \<Rightarrow> real" where
  "sq_dist (gx, gy, gz) (sx, sy, sz) = (sx - gx)\<^sup>2 + (sy - gy)\<^sup>2 + (sz - gz)\<^sup>2"

text \<open>Modelled from the spec: the slice of the candidate buffer that a slice record
  (offset, length) locates, for the missing refiner.\<close>

definition candidate_slice :: "int list \<Rightarrow> int \<times> int \<Rightarrow> int list" where
  "candidate_slice stack rec = take (nat (snd rec)) (drop (nat (fst rec)) stack)"

text \<open>Modelled from the spec: the three closest candidates of a grid sample, as pairs of
  squared distance and source index in ascending order of distance, for the missing
  refiner. A candidate that is no index of a source point is passed over.\<close>

definition three_nearest :: "point list \<Rightarrow> point \<Rightarrow> int list \<Rightarrow> (real \<times> int) list" where
  "three_nearest pts g slice =
     take 3 (sort_key fst
       (map (\<lambda>i. (sq_dist g (pts ! nat i), i))
         (filter (\<lambda>i. 0 \<le> i \<and> nat i < length pts) slice)))"

text \<open>Modelled from the spec: what the missing refiner finds for grid sample \<open>g\<close> of query
  center \<open>c\<close>; nothing outside the given numbers of centers and of grid samples.\<close>

definition refine_sample :: "refine_args \<Rightarrow> nat \<Rightarrow> nat \<Rightarrow> (real \<times> int) list" where
  "refine_sample a c g =
     (if int c < ra_num_new_xyz a \<and> int g < ra_num_total_grids a \<and>
         c < length (ra_start_len a) \<and> c < length (ra_new_xyz_grid_centers a) \<and>
         g < length (ra_new_xyz_grid_centers a ! c)
      then three_nearest (ra_xyz a) (ra_new_xyz_grid_centers a ! c ! g)
             (candidate_slice (ra_stack_neighbor_idxs a) (ra_start_len a ! c))
      else [])"

text \<open>Modelled from the spec: how the missing refiner stores what it found in the output
  slots of one grid sample. The slots it has a neighbour for are overwritten; the others
  are unset, that is, left as the caller initialised them.\<close>

definition fill_slots :: "'a list \<Rightarrow> 'a list \<Rightarrow> 'a list" where
  "fill_slots slots vs = take (length slots) vs @ drop (length vs) slots"

text \<open>Modelled from the spec: the compiled refiner \<^verbatim>\<open>stack_query_three_nn_local_idxs\<close>,
  which is not among the sources (section 4.2 of the spec), on the two output tensors the
  caller allocated.\<close>

definition stack_query_three_nn_local_idxs :: "refine_args \<Rightarrow> refine_out" where
  "stack_query_three_nn_local_idxs a =
     \<lparr> ro_new_xyz_grid_idxs =
         map (\<lambda>(c, row). map (\<lambda>(g, slots). fill_slots slots (map snd (refine_sample a c g)))
                             (enumerate 0 row))
           (enumerate 0 (ra_new_xyz_grid_idxs a)),
       ro_new_xyz_grid_dist2 =
         map (\<lambda>(c, row). map (\<lambda>(g, slots). fill_slots slots (map fst (refine_sample a c g)))
                             (enumerate 0 row))
           (enumerate 0 (ra_new_xyz_grid_dist2 a)) \<rparr>"

text \<open>Modelled from the spec: the output slots of one grid sample when the missing
  refiner gives the slots it has no neighbour for a distance sentinel. Section 4.2 of the
  spec calls that sentinel large or undefined: with \<open>Some v\<close> the refiner writes the value
  \<open>v\<close> into those slots, with \<open>None\<close> it leaves them undefined, as \<open>fill_slots\<close>
  does.\<close>

definition fill_slots_sentinel :: "'a option \<Rightarrow> 'a list \<Rightarrow> 'a list \<Rightarrow> 'a list" where
  "fill_slots_sentinel sentinel slots vs =
     (case sentinel of
        None \<Rightarrow> fill_slots slots vs
      | Some v \<Rightarrow> take (length slots) (vs @ replicate (length slots - length vs) v))"

text \<open>Modelled from the spec: the missing refiner \<^verbatim>\<open>stack_query_three_nn_local_idxs\<close>
  with the sentinel of its unset squared distances made explicit (section 4.2 of the
  spec). The indices are those of \<open>stack_query_three_nn_local_idxs\<close>, which is the case
  \<open>None\<close>.\<close>

definition three_nn_with_sentinel :: "real option \<Rightarrow> refine_args \<Rightarrow> refine_out" where
  "three_nn_with_sentinel sentinel a =
     \<lparr> ro_new_xyz_grid_idxs = ro_new_xyz_grid_idxs (stack_query_three_nn_local_idxs a),
       ro_new_xyz_grid_dist2 =
         map (\<lambda>(c, row). map (\<lambda>(g, slots).
                  fill_slots_sentinel sentinel slots (map fst (refine_sample a c g)))
                             (enumerate 0 row))
           (enumerate 0 (ra_new_xyz_grid_dist2 a)) \<rparr>"

subsection \<open>A worked input\<close>

text \<open>An input in the manner of the first scenario of section 8 of the spec: one batch
  with a cluster of three source points and one outlier, a ball of radius 2, and two query
  centers, the first in the cluster and the second far from every source point. Each
  center has one grid sample, at the center itself. The initial estimate \<open>s\<close> is left
  open.\<close>

abbreviation cluster_input :: "int \<Rightarrow> forward_args" where
  "cluster_input s \<equiv>
     \<lparr> xyz = [(0, 0, 0), (1, 0, 0), (0, 1, 0), (10, 0, 0)],
       xyz_batch_cnt = [4],
       new_xyz = [(0, 0, 0), (100, 0, 0)],
       new_xyz_grid_centers = [[(0, 0, 0)], [(100, 0, 0)]],
       new_xyz_batch_cnt = [2],
       max_neighbour_distance = 2,
       nsample = - 1,
       neighbor_type = 1,
       avg_length_of_neighbor_idxs = s,
       num_total_grids = 1,
       neighbor_distance_multiplier = 1 \<rparr>"

text \<open>The pass of the loop on that input at the estimate \<open>e\<close>, with the scan as the spec
  describes it.\<close>

abbreviation cluster_pass :: "int \<Rightarrow> int \<Rightarrow> pass" where
  "cluster_pass s e \<equiv> gather_pass stack_query_local_neighbor_idxs (cluster_input s) e"

subsection \<open>The recomputed estimate\<close>

lemma recompute_avg_ceiling:
  "0 < n \<Longrightarrow> recompute_avg c n = Inr \<lceil>real_of_int c / real_of_int n\<rceil>"
proof -
  assume n: "0 < n"
  have "0 \<le> c mod n" using n by (rule pos_mod_sign)
  then have "c mod n = 0 \<or> 0 < c mod n" by linarith
  then show ?thesis
    unfolding recompute_avg_def ceiling_divide_eq_div
    using n by (auto simp add: zdiv_zminus1_eq_if)
qed

lemma recompute_avg_covers:
  assumes "0 < n" and "recompute_avg c n = Inr a"
  shows "c \<le> a * n"
proof -
  have eq: "c = (c div n) * n + c mod n" by simp
  have lt: "c mod n < n" using assms(1) by simp
  show ?thesis
  proof (cases "0 < c mod n")
    case True
    with assms have "a = c div n + 1" by (simp add: recompute_avg_def)
    then have "a * n = (c div n) * n + n" by (simp add: algebra_simps)
    with eq lt show ?thesis by linarith
  next
    case False
    with assms have "a = c div n" by (simp add: recompute_avg_def)
    moreover from False pos_mod_sign [OF assms(1), of c] have "c mod n = 0" by simp
    ultimately show ?thesis using eq by simp
  qed
qed

lemma recompute_avg_le:
  assumes "0 < n" and "c \<le> e * n" and "recompute_avg c n = Inr a"
  shows "a \<le> e"
proof -
  have "a = \<lceil>real_of_int c / real_of_int n\<rceil>"
    using recompute_avg_ceiling [OF assms(1), of c] assms(3) by simp
  moreover have "real_of_int c / real_of_int n \<le> real_of_int e"
  proof -
    have "real_of_int c \<le> real_of_int (e * n)" using assms(2) by (simp only: of_int_le_iff)
    then show ?thesis using assms(1) by (simp add: pos_divide_le_eq)
  qed
  ultimately show ?thesis by (simp add: ceiling_le_iff)
qed

subsection \<open>One turn of the loop\<close>

lemma gather_loop_raises:
  "new_zeros_raises mx (avg * int (length (new_xyz inp))) \<Longrightarrow>
     gather_loop mx scan inp avg tr = Some (tr, Inl RuntimeError)"
  by (subst gather_loop.simps) simp

lemma gather_loop_negative:
  "avg * int (length (new_xyz inp)) < 0 \<Longrightarrow>
     gather_loop mx scan inp avg tr = Some (tr, Inl RuntimeError)"
  by (rule gather_loop_raises) (simp add: new_zeros_raises_def)

lemma gather_loop_no_center:
  "new_xyz inp = [] \<Longrightarrow>
     gather_loop mx scan inp avg tr = Some (tr @ [gather_pass scan inp avg], Inl ZeroDivisionError)"
  by (subst gather_loop.simps) (simp add: recompute_avg_def new_zeros_raises_def)

lemma gather_loop_accept:
  assumes "new_xyz inp \<noteq> []" and "0 \<le> avg * int (length (new_xyz inp))"
    and "avg * int (length (new_xyz inp)) \<le> int mx"
    and "p_cumsum (gather_pass scan inp avg) \<le> avg * int (length (new_xyz inp))"
    and "recompute_avg (p_cumsum (gather_pass scan inp avg)) (int (length (new_xyz inp))) = Inr a"
  shows "gather_loop mx scan inp avg tr =
     Some (tr @ [gather_pass scan inp avg], Inr (gather_pass scan inp avg, a))"
  using assms
  by (subst gather_loop.simps) (simp add: gather_pass_def Let_def new_zeros_raises_def)

lemma gather_loop_retry:
  assumes "new_xyz inp \<noteq> []" and "0 \<le> avg * int (length (new_xyz inp))"
    and "avg * int (length (new_xyz inp)) \<le> int mx"
    and "avg * int (length (new_xyz inp)) < p_cumsum (gather_pass scan inp avg)"
    and "recompute_avg (p_cumsum (gather_pass scan inp avg)) (int (length (new_xyz inp))) = Inr a"
  shows "gather_loop mx scan inp avg tr =
     gather_loop mx scan inp a (tr @ [gather_pass scan inp avg])"
  using assms
  by (subst gather_loop.simps) (simp add: gather_pass_def Let_def new_zeros_raises_def)

subsection \<open>The log of a run\<close>

text \<open>Whatever the scan does, a run that leaves the loop has logged only passes of the
  form \<open>gather_pass scan inp e\<close> whose buffer was allocated; every logged pass but
  the last overflowed; and a run that ends with an accepted pass ends with a pass that
  fits, on an input with a query center, with the estimate recomputed from that pass.\<close>

lemma gather_loop_log:
  assumes "gather_loop mx scan inp avg tr = Some y"
  shows "\<exists>ps. fst y = tr @ ps \<and>
     (\<forall>q \<in> set ps. \<exists>a. 0 \<le> a * int (length (new_xyz inp)) \<and>
        a * int (length (new_xyz inp)) \<le> int mx \<and> q = gather_pass scan inp a) \<and>
     (\<forall>q \<in> set (butlast ps). p_num_max_sum_points q < p_cumsum q) \<and>
     (\<forall>p a. snd y = Inr (p, a) \<longrightarrow>
        ps \<noteq> [] \<and> last ps = p \<and> p_cumsum p \<le> p_num_max_sum_points p \<and>
        new_xyz inp \<noteq> [] \<and>
        recompute_avg (p_cumsum p) (int (length (new_xyz inp))) = Inr a)"
proof -
  let ?P = "\<lambda>(mx :: nat) (scan :: scan_args \<Rightarrow> scan_out) inp avg tr
       (y :: pass list \<times> (py_error + pass \<times> int)).
     \<exists>ps. fst y = tr @ ps \<and>
     (\<forall>q \<in> set ps. \<exists>a. 0 \<le> a * int (length (new_xyz inp)) \<and>
        a * int (length (new_xyz inp)) \<le> int mx \<and> q = gather_pass scan inp a) \<and>
     (\<forall>q \<in> set (butlast ps). p_num_max_sum_points q < p_cumsum q) \<and>
     (\<forall>p a. snd y = Inr (p, a) \<longrightarrow>
        ps \<noteq> [] \<and> last ps = p \<and> p_cumsum p \<le> p_num_max_sum_points p \<and>
        new_xyz inp \<noteq> [] \<and>
        recompute_avg (p_cumsum p) (int (length (new_xyz inp))) = Inr a)"
  have "?P mx scan inp avg tr y"
  proof (rule gather_loop.raw_induct [where P = ?P, OF _ assms])
  fix loop and mx :: nat and scan :: "scan_args \<Rightarrow> scan_out" and inp avg tr
    and y :: "pass list \<times> (py_error + pass \<times> int)"
  assume 1: "\<And>mx scan inp avg tr y. loop mx scan inp avg tr = Some y \<Longrightarrow> ?P mx scan inp avg tr y"
    "(if new_zeros_raises mx (avg * int (length (new_xyz inp)))
      then Some (tr, Inl RuntimeError)
      else
        (case recompute_avg (p_cumsum (gather_pass scan inp avg)) (int (length (new_xyz inp))) of
           Inl e \<Rightarrow> Some (tr @ [gather_pass scan inp avg], Inl e)
         | Inr avg' \<Rightarrow>
             if p_cumsum (gather_pass scan inp avg)
                  \<le> p_num_max_sum_points (gather_pass scan inp avg)
             then Some (tr @ [gather_pass scan inp avg], Inr (gather_pass scan inp avg, avg'))
             else loop mx scan inp avg' (tr @ [gather_pass scan inp avg]))) = Some y"
  let ?n = "int (length (new_xyz inp))"
  let ?p = "gather_pass scan inp avg"
  show "?P mx scan inp avg tr y"
  proof (cases "new_zeros_raises mx (avg * ?n)")
    case True
    with 1(2) have "y = (tr, Inl RuntimeError)" by simp
    then show ?thesis by simp
  next
    case alloc: False
    then have "0 \<le> avg * ?n \<and> avg * ?n \<le> int mx \<and> ?p = gather_pass scan inp avg"
      by (simp add: new_zeros_raises_def)
    then have pa: "\<exists>a. 0 \<le> a * ?n \<and> a * ?n \<le> int mx \<and> ?p = gather_pass scan inp a" ..
    show ?thesis
    proof (cases "recompute_avg (p_cumsum ?p) ?n")
      case (Inl e)
      with alloc 1(2) have "y = (tr @ [?p], Inl e)" by simp
      with pa show ?thesis by auto
    next
      case (Inr a')
      then have n: "new_xyz inp \<noteq> []" by (auto simp: recompute_avg_def split: if_splits)
      show ?thesis
      proof (cases "p_cumsum ?p \<le> p_num_max_sum_points ?p")
        case True
        with alloc Inr 1(2) have "y = (tr @ [?p], Inr (?p, a'))" by simp
        with pa True Inr n show ?thesis by auto
      next
        case False
        with alloc Inr 1(2) have "loop mx scan inp a' (tr @ [?p]) = Some y" by simp
        from 1(1) [OF this] obtain ps where ps:
          "fst y = (tr @ [?p]) @ ps"
          "\<forall>q \<in> set ps. \<exists>a. 0 \<le> a * ?n \<and> a * ?n \<le> int mx \<and> q = gather_pass scan inp a"
          "\<forall>q \<in> set (butlast ps). p_num_max_sum_points q < p_cumsum q"
          "\<forall>p a. snd y = Inr (p, a) \<longrightarrow>
             ps \<noteq> [] \<and> last ps = p \<and> p_cumsum p \<le> p_num_max_sum_points p \<and>
             new_xyz inp \<noteq> [] \<and> recompute_avg (p_cumsum p) ?n = Inr a"
          by blast
        have a: "fst y = tr @ (?p # ps)" using ps(1) by simp
        have b: "\<forall>q \<in> set (?p # ps). \<exists>a. 0 \<le> a * ?n \<and> a * ?n \<le> int mx \<and>
                   q = gather_pass scan inp a"
          using ps(2) pa by auto
        have c: "\<forall>q \<in> set (butlast (?p # ps)). p_num_max_sum_points q < p_cumsum q"
          using ps(3) False by auto
        have d: "\<forall>p a. snd y = Inr (p, a) \<longrightarrow>
             ?p # ps \<noteq> [] \<and> last (?p # ps) = p \<and> p_cumsum p \<le> p_num_max_sum_points p \<and>
             new_xyz inp \<noteq> [] \<and> recompute_avg (p_cumsum p) ?n = Inr a"
          using ps(4) by auto
        from a b c d show ?thesis by blast
      qed
    qed
  qed
  qed
  then show ?thesis .
qed

subsection \<open>From the loop to the result of \<open>forward\<close>\<close>

lemma gather_pass_sel [simp]:
  "p_num_max_sum_points (gather_pass scan inp e) = e * int (length (new_xyz inp))"
  "p_call (gather_pass scan inp e) = scan_call inp e"
  "p_stack_neighbor_idxs (gather_pass scan inp e) = so_stack_neighbor_idxs (scan (scan_call inp e))"
  "p_start_len (gather_pass scan inp e) = so_start_len (scan (scan_call inp e))"
  "p_cumsum (gather_pass scan inp e) = so_cumsum (scan (scan_call inp e))"
  by (simp_all add: gather_pass_def Let_def)

lemma forward_accepted:
  "gather_loop mx scan inp (avg_length_of_neighbor_idxs inp) [] = Some (tr, Inr (p, a)) \<Longrightarrow>
   forward mx scan refine inp =
     Some (Inr (sqrt_grid (ro_new_xyz_grid_dist2 (refine (refine_call inp p))),
                ro_new_xyz_grid_idxs (refine (refine_call inp p)), a))"
  by (simp add: forward_def Let_def)

lemma forward_raised:
  "gather_loop mx scan inp (avg_length_of_neighbor_idxs inp) [] = Some (tr, Inl e) \<Longrightarrow>
   forward mx scan refine inp = Some (Inl e)"
  by (simp add: forward_def)

lemma forward_result:
  assumes "forward mx scan refine inp = Some (Inr (dists, idxs, a))"
  shows "\<exists>tr p. gather_loop mx scan inp (avg_length_of_neighbor_idxs inp) [] = Some (tr, Inr (p, a)) \<and>
           dists = sqrt_grid (ro_new_xyz_grid_dist2 (refine (refine_call inp p))) \<and>
           idxs = ro_new_xyz_grid_idxs (refine (refine_call inp p))"
  using assms
  by (auto simp add: forward_def Let_def split: option.splits sum.splits prod.splits)

lemma deterministic_two_passes:
  assumes centers: "new_xyz inp \<noteq> []"
    and det: "\<forall>e. so_cumsum (scan (scan_call inp e)) = c"
  shows "\<exists>tr r. gather_loop mx scan inp avg [] = Some (tr, r) \<and> length tr \<le> 2 \<and>
           (r = Inl RuntimeError \<or> (\<exists>p a. r = Inr (p, a)))"
proof -
  let ?n = "int (length (new_xyz inp))"
  have n: "0 < ?n" using centers by simp
  have cs: "so_cumsum (scan (scan_call inp e)) = c" for e using det by simp
  obtain a where a: "recompute_avg c ?n = Inr a"
    using n by (auto simp: recompute_avg_def)
  have cover: "c \<le> a * ?n" using recompute_avg_covers [OF n a] .
  show ?thesis
  proof (cases "new_zeros_raises mx (avg * ?n)")
    case True
    then have "gather_loop mx scan inp avg [] = Some ([], Inl RuntimeError)"
      by (rule gather_loop_raises)
    then show ?thesis by simp
  next
    case False
    then have nonneg: "0 \<le> avg * ?n" and room: "avg * ?n \<le> int mx"
      by (simp_all add: new_zeros_raises_def)
    show ?thesis
    proof (cases "c \<le> avg * ?n")
      case True
      have "gather_loop mx scan inp avg [] =
              Some ([] @ [gather_pass scan inp avg], Inr (gather_pass scan inp avg, a))"
        by (rule gather_loop_accept [OF centers nonneg room]) (simp_all add: cs True a)
      then show ?thesis by simp
    next
      case False
      then have over: "avg * ?n < c" by simp
      have step: "gather_loop mx scan inp avg [] =
                    gather_loop mx scan inp a ([] @ [gather_pass scan inp avg])"
        by (rule gather_loop_retry [OF centers nonneg room]) (simp_all add: cs over a)
      show ?thesis
      proof (cases "new_zeros_raises mx (a * ?n)")
        case True
        then have "gather_loop mx scan inp a ([] @ [gather_pass scan inp avg]) =
                     Some ([] @ [gather_pass scan inp avg], Inl RuntimeError)"
          by (rule gather_loop_raises)
        with step show ?thesis by simp
      next
        case False
        then have nonneg': "0 \<le> a * ?n" and room': "a * ?n \<le> int mx"
          by (simp_all add: new_zeros_raises_def)
        have "gather_loop mx scan inp a ([] @ [gather_pass scan inp avg]) =
                Some (([] @ [gather_pass scan inp avg]) @ [gather_pass scan inp a],
                      Inr (gather_pass scan inp a, a))"
          by (rule gather_loop_accept [OF centers nonneg' room']) (simp_all add: cs cover a)
        with step show ?thesis by simp
      qed
    qed
  qed
qed

subsection \<open>What a pass hands to the scan\<close>

lemma scan_call_fresh:
  "sa_stack_neighbor_idxs (scan_call inp e) = replicate (nat (e * int (length (new_xyz inp)))) 0"
  "sa_start_len (scan_call inp e) = replicate (length (new_xyz inp)) (0, 0)"
  "sa_cumsum (scan_call inp e) = 0"
  "sa_avg_length_of_neighbor_idxs (scan_call inp e) = e"
  by (simp_all add: scan_call_def Let_def)


subsection \<open>The refiner of the spec\<close>

lemma sq_dist_nonneg: "0 \<le> sq_dist g s"
  by (cases g; cases s) simp

lemma three_nearest_nonneg: "x \<in> set (map fst (three_nearest pts g slice)) \<Longrightarrow> 0 \<le> x"
  by (auto simp add: three_nearest_def sq_dist_nonneg dest!: in_set_takeD)

lemma three_nearest_empty: "three_nearest pts g [] = []"
  by (simp add: three_nearest_def)

lemma fill_slots_set: "set (fill_slots slots vs) \<subseteq> set vs \<union> set slots"
  by (auto simp add: fill_slots_def dest: in_set_takeD in_set_dropD)

lemma fill_slots_nothing: "fill_slots slots [] = slots"
  by (simp add: fill_slots_def)

lemma refine_sample_nonneg:
  assumes "x \<in> set (map fst (refine_sample a c g))"
  shows "0 \<le> x"
proof -
  from assms have "x \<in> set (map fst
      (three_nearest (ra_xyz a) (ra_new_xyz_grid_centers a ! c ! g)
         (candidate_slice (ra_stack_neighbor_idxs a) (ra_start_len a ! c))))"
    by (auto simp add: refine_sample_def split: if_splits)
  then show ?thesis by (rule three_nearest_nonneg)
qed

lemma refine_sample_empty_slice:
  "candidate_slice (ra_stack_neighbor_idxs a) (ra_start_len a ! c) = [] \<Longrightarrow>
     refine_sample a c g = []"
  by (simp add: refine_sample_def three_nearest_empty)

lemma new_zeros_grid_nonneg:
  "row \<in> set (new_zeros_grid centers) \<Longrightarrow> slots \<in> set row \<Longrightarrow> x \<in> set slots \<Longrightarrow> 0 \<le> x"
  by (auto simp add: new_zeros_grid_def)


lemma new_fill_grid_nth:
  "c < length centers \<Longrightarrow> g < length (centers ! c) \<Longrightarrow>
     new_fill_grid centers ! c ! g = [- 1, - 1, - 1]"
  by (simp add: new_fill_grid_def)

lemma refiner_idxs_nth:
  assumes "c < length (ra_new_xyz_grid_idxs a)" and "g < length (ra_new_xyz_grid_idxs a ! c)"
  shows "ro_new_xyz_grid_idxs (stack_query_three_nn_local_idxs a) ! c ! g =
           fill_slots (ra_new_xyz_grid_idxs a ! c ! g) (map snd (refine_sample a c g))"
  using assms by (simp add: stack_query_three_nn_local_idxs_def nth_enumerate_eq)

lemma refiner_dist2_nonneg:
  assumes init: "\<And>row slots x. row \<in> set (ra_new_xyz_grid_dist2 a) \<Longrightarrow> slots \<in> set row \<Longrightarrow>
                   x \<in> set slots \<Longrightarrow> 0 \<le> x"
    and "row \<in> set (ro_new_xyz_grid_dist2 (stack_query_three_nn_local_idxs a))"
    and "slots \<in> set row" and "x \<in> set slots"
  shows "0 \<le> x"
proof -
  from assms(2) have "row \<in> (\<lambda>(c, row). map (\<lambda>(g, slots).
          fill_slots slots (map fst (refine_sample a c g))) (enumerate 0 row))
        ` set (enumerate 0 (ra_new_xyz_grid_dist2 a))"
    by (simp add: stack_query_three_nn_local_idxs_def)
  then obtain c row0 where in0: "(c, row0) \<in> set (enumerate 0 (ra_new_xyz_grid_dist2 a))"
    and row: "row = map (\<lambda>(g, slots). fill_slots slots (map fst (refine_sample a c g)))
                      (enumerate 0 row0)"
    by auto
  from in0 have row0: "row0 \<in> set (ra_new_xyz_grid_dist2 a)"
    by (auto simp add: in_set_enumerate_eq)
  from assms(3) row have "slots \<in> (\<lambda>(g, slots).
          fill_slots slots (map fst (refine_sample a c g))) ` set (enumerate 0 row0)"
    by simp
  then obtain g slots0 where in1: "(g, slots0) \<in> set (enumerate 0 row0)"
    and slots: "slots = fill_slots slots0 (map fst (refine_sample a c g))"
    by auto
  from in1 have slots0: "slots0 \<in> set row0"
    by (auto simp add: in_set_enumerate_eq)
  have "set slots \<subseteq> set (map fst (refine_sample a c g)) \<union> set slots0"
    unfolding slots by (rule fill_slots_set)
  with assms(4) have "x \<in> set (map fst (refine_sample a c g)) \<or> x \<in> set slots0"
    by auto
  then show ?thesis
  proof
    assume "x \<in> set (map fst (refine_sample a c g))"
    then show ?thesis by (rule refine_sample_nonneg)
  next
    assume "x \<in> set slots0"
    with row0 slots0 show ?thesis by (rule init)
  qed
qed

subsection \<open>The square root of the distance tensor\<close>

lemma sqrt_grid_squares:
  assumes "\<And>row slots x. row \<in> set t \<Longrightarrow> slots \<in> set row \<Longrightarrow> x \<in> set slots \<Longrightarrow> 0 \<le> x"
  shows "map (map (map (\<lambda>d. d\<^sup>2))) (sqrt_grid t) = t"
proof -
  have "map (map (map (\<lambda>d. d\<^sup>2))) (sqrt_grid t) = map (map (map (\<lambda>x. (sqrt x)\<^sup>2))) t"
    by (simp add: sqrt_grid_def comp_def)
  also have "\<dots> = map (map (map (\<lambda>x. x))) t"
    using assms by (intro map_cong refl) simp
  finally show ?thesis by simp
qed

lemma sqrt_grid_nonneg:
  assumes "\<And>row slots x. row \<in> set t \<Longrightarrow> slots \<in> set row \<Longrightarrow> x \<in> set slots \<Longrightarrow> 0 \<le> x"
    and "row \<in> set (sqrt_grid t)" and "slots \<in> set row" and "d \<in> set slots"
  shows "0 \<le> d"
  using assms by (auto simp add: sqrt_grid_def)


subsection \<open>Unset slots\<close>





lemma three_nn_with_sentinel_None:
  "three_nn_with_sentinel None a = stack_query_three_nn_local_idxs a"
  by (simp add: three_nn_with_sentinel_def stack_query_three_nn_local_idxs_def
        fill_slots_sentinel_def)

subsection \<open>The run on the worked input\<close>

text \<open>On the worked input the scan finds the three cluster points for the first center and
  nothing for the second, so it consumes 3 entries whatever the capacity. From the
  estimate 1 the capacity is 2, the pass overflows, the estimate becomes 2 and the second
  pass, of capacity 4, is accepted. The machine provides 1000 entries.\<close>

lemma sqrt_le_iff_sq: "0 \<le> r \<Longrightarrow> sqrt x \<le> r \<longleftrightarrow> x \<le> r\<^sup>2"
  by (metis abs_of_nonneg real_sqrt_abs real_sqrt_le_iff)

lemma cluster_scan:
  "stack_query_local_neighbor_idxs (scan_call (cluster_input s) e) =
     \<lparr> so_stack_neighbor_idxs = write_at (replicate (nat (e * 2)) 0) 0 [0, 1, 2],
       so_start_len = [(0, 3), (3, 0)],
       so_cumsum = 3 \<rparr>"
  by (simp add: stack_query_local_neighbor_idxs_def gather_center_def center_candidates_def
        scan_call_def batch_points_def sqrt_le_iff_sq Let_def upt_rec)

lemma cluster_refine:
  "stack_query_three_nn_local_idxs
     \<lparr> ra_xyz = [(0, 0, 0), (1, 0, 0), (0, 1, 0), (10, 0, 0)],
       ra_new_xyz = [(0, 0, 0), (100, 0, 0)],
       ra_new_xyz_grid_centers = [[(0, 0, 0)], [(100, 0, 0)]],
       ra_new_xyz_grid_idxs = [[[- 1, - 1, - 1]], [[- 1, - 1, - 1]]],
       ra_new_xyz_grid_dist2 = [[[0, 0, 0]], [[0, 0, 0]]],
       ra_stack_neighbor_idxs = [0, 1, 2],
       ra_start_len = [(0, 3), (3, 0)],
       ra_num_new_xyz = 2,
       ra_num_total_grids = 1 \<rparr> =
     \<lparr> ro_new_xyz_grid_idxs = [[[0, 1, 2]], [[- 1, - 1, - 1]]],
       ro_new_xyz_grid_dist2 = [[[0, 1, 1]], [[0, 0, 0]]] \<rparr>"
  by (simp add: stack_query_three_nn_local_idxs_def refine_sample_def three_nearest_def
        candidate_slice_def fill_slots_def)

lemma cluster_recompute: "recompute_avg 3 2 = Inr 2"
  by (simp add: recompute_avg_def)

lemma cluster_retry:
  assumes "0 \<le> e" and "e * 2 < 3"
  shows "gather_loop 1000 stack_query_local_neighbor_idxs (cluster_input s) e tr =
           gather_loop 1000 stack_query_local_neighbor_idxs (cluster_input s) 2
             (tr @ [cluster_pass s e])"
  using assms by (intro gather_loop_retry) (simp_all add: cluster_scan cluster_recompute)

lemma cluster_accept:
  assumes "3 \<le> e * 2" and "e * 2 \<le> 1000"
  shows "gather_loop 1000 stack_query_local_neighbor_idxs (cluster_input s) e tr =
           Some (tr @ [cluster_pass s e], Inr (cluster_pass s e, 2))"
  using assms by (intro gather_loop_accept) (simp_all add: cluster_scan cluster_recompute)

lemma cluster_run:
  "gather_loop 1000 stack_query_local_neighbor_idxs (cluster_input 1)
     (avg_length_of_neighbor_idxs (cluster_input 1)) [] =
     Some ([cluster_pass 1 1, cluster_pass 1 2], Inr (cluster_pass 1 2, 2))"
  by (simp add: cluster_retry cluster_accept)

lemma cluster_run_from_zero:
  "gather_loop 1000 stack_query_local_neighbor_idxs (cluster_input 0)
     (avg_length_of_neighbor_idxs (cluster_input 0)) [] =
     Some ([cluster_pass 0 0, cluster_pass 0 2], Inr (cluster_pass 0 2, 2))"
  by (simp add: cluster_retry cluster_accept)

lemma cluster_refine_call:
  "stack_query_three_nn_local_idxs (refine_call (cluster_input s) (cluster_pass s 2)) =
     \<lparr> ro_new_xyz_grid_idxs = [[[0, 1, 2]], [[- 1, - 1, - 1]]],
       ro_new_xyz_grid_dist2 = [[[0, 1, 1]], [[0, 0, 0]]] \<rparr>"
  by (simp add: refine_call_def cluster_scan slice_to_def new_zeros_grid_def new_fill_grid_def
        eval_nat_numeral cluster_refine [simplified eval_nat_numeral])

lemma cluster_forward:
  "forward 1000 stack_query_local_neighbor_idxs stack_query_three_nn_local_idxs (cluster_input 1) =
     Some (Inr ([[[0, 1, 1]], [[0, 0, 0]]], [[[0, 1, 2]], [[- 1, - 1, - 1]]], 2))"
  by (simp add: forward_accepted [OF cluster_run] cluster_refine_call sqrt_grid_def)



section \<open>The claims\<close>

text \<open>
  Claim C1. On an input with at least one query center, a pass whose buffer was allocated
  (its capacity is not negative and within what the allocator provides) and that consumed
  more than its capacity is followed by a pass at the estimate
  \<open>ceiling (consumed / number of centers)\<close>, and the capacity of that next pass, the
  new estimate times the number of centers, is at least the consumed total that was
  observed. If moreover the scan reports the same consumed total \<open>c\<close> on every pass,
  the loop is left after at most two passes, and \<open>forward\<close> returns (a result, or the
  error of an allocation that raises).
\<close>

theorem capacity_retry_terminates:
  assumes "new_xyz inp \<noteq> []"
  shows
    "(0 \<le> avg * int (length (new_xyz inp)) \<and>
      avg * int (length (new_xyz inp)) \<le> int mx \<and>
      avg * int (length (new_xyz inp)) < p_cumsum (gather_pass scan inp avg) \<longrightarrow>
        (\<exists>a. a = \<lceil>real_of_int (p_cumsum (gather_pass scan inp avg))
                   / real_of_int (int (length (new_xyz inp)))\<rceil> \<and>
             gather_loop mx scan inp avg tr =
               gather_loop mx scan inp a (tr @ [gather_pass scan inp avg]) \<and>
             p_cumsum (gather_pass scan inp avg) \<le> a * int (length (new_xyz inp)))) \<and>
     ((\<forall>e. so_cumsum (scan (scan_call inp e)) = c) \<longrightarrow>
        (\<exists>tr r. gather_loop mx scan inp (avg_length_of_neighbor_idxs inp) [] = Some (tr, r) \<and>
                length tr \<le> 2) \<and>
        (\<exists>res. forward mx scan refine inp = Some res))"
proof (intro conjI impI)
  let ?n = "int (length (new_xyz inp))"
  let ?p = "gather_pass scan inp avg"
  have n: "0 < ?n" using assms by simp
  assume h: "0 \<le> avg * ?n \<and> avg * ?n \<le> int mx \<and> avg * ?n < p_cumsum ?p"
  have a: "recompute_avg (p_cumsum ?p) ?n = Inr \<lceil>real_of_int (p_cumsum ?p) / real_of_int ?n\<rceil>"
    using n by (rule recompute_avg_ceiling)
  have "gather_loop mx scan inp avg tr =
          gather_loop mx scan inp \<lceil>real_of_int (p_cumsum ?p) / real_of_int ?n\<rceil> (tr @ [?p])"
    using assms h a by (intro gather_loop_retry) simp_all
  moreover have "p_cumsum ?p \<le> \<lceil>real_of_int (p_cumsum ?p) / real_of_int ?n\<rceil> * ?n"
    using recompute_avg_covers [OF n a] .
  ultimately show "\<exists>a. a = \<lceil>real_of_int (p_cumsum ?p) / real_of_int ?n\<rceil> \<and>
      gather_loop mx scan inp avg tr = gather_loop mx scan inp a (tr @ [?p]) \<and>
      p_cumsum ?p \<le> a * ?n"
    by blast
next
  assume det: "\<forall>e. so_cumsum (scan (scan_call inp e)) = c"
  from deterministic_two_passes [OF assms det, where avg = "avg_length_of_neighbor_idxs inp" and mx = mx]
  show "\<exists>tr r. gather_loop mx scan inp (avg_length_of_neighbor_idxs inp) [] = Some (tr, r) \<and>
          length tr \<le> 2"
    by blast
next
  assume det: "\<forall>e. so_cumsum (scan (scan_call inp e)) = c"
  from deterministic_two_passes [OF assms det, where avg = "avg_length_of_neighbor_idxs inp" and mx = mx]
  obtain tr r where run: "gather_loop mx scan inp (avg_length_of_neighbor_idxs inp) [] = Some (tr, r)"
    and r: "r = Inl RuntimeError \<or> (\<exists>p a. r = Inr (p, a))"
    by blast
  from r show "\<exists>res. forward mx scan refine inp = Some res"
  proof
    assume "r = Inl RuntimeError"
    with run show ?thesis by (auto dest: forward_raised)
  next
    assume "\<exists>p a. r = Inr (p, a)"
    with run show ?thesis by (auto dest: forward_accepted)
  qed
qed

text \<open>
  The worked input from the estimate 1: the first pass has capacity 2 and consumes 3, the
  scan consumes 3 at every estimate, and the run takes two passes.
\<close>

theorem capacity_retry_terminates_witness:
  "new_xyz (cluster_input 1) \<noteq> [] \<and>
   0 \<le> 1 * int (length (new_xyz (cluster_input 1))) \<and>
   1 * int (length (new_xyz (cluster_input 1))) \<le> int 1000 \<and>
   1 * int (length (new_xyz (cluster_input 1))) < p_cumsum (cluster_pass 1 1) \<and>
   (\<forall>e. so_cumsum (stack_query_local_neighbor_idxs (scan_call (cluster_input 1) e)) = 3) \<and>
   (\<exists>a. a = \<lceil>real_of_int (p_cumsum (cluster_pass 1 1))
              / real_of_int (int (length (new_xyz (cluster_input 1))))\<rceil> \<and>
        gather_loop 1000 stack_query_local_neighbor_idxs (cluster_input 1) 1 [] =
          gather_loop 1000 stack_query_local_neighbor_idxs (cluster_input 1) a
            ([] @ [cluster_pass 1 1]) \<and>
        p_cumsum (cluster_pass 1 1) \<le> a * int (length (new_xyz (cluster_input 1)))) \<and>
   (\<exists>tr r. gather_loop 1000 stack_query_local_neighbor_idxs (cluster_input 1)
              (avg_length_of_neighbor_idxs (cluster_input 1)) [] = Some (tr, r) \<and>
           length tr \<le> 2) \<and>
   (\<exists>res. forward 1000 stack_query_local_neighbor_idxs stack_query_three_nn_local_idxs
             (cluster_input 1) = Some res)"
proof -
  have centers: "new_xyz (cluster_input 1) \<noteq> []" by simp
  have over: "0 \<le> 1 * int (length (new_xyz (cluster_input 1))) \<and>
      1 * int (length (new_xyz (cluster_input 1))) \<le> int 1000 \<and>
      1 * int (length (new_xyz (cluster_input 1))) < p_cumsum (cluster_pass 1 1)"
    by (simp add: cluster_scan)
  have det: "\<forall>e. so_cumsum (stack_query_local_neighbor_idxs (scan_call (cluster_input 1) e)) = 3"
    by (simp add: cluster_scan)
  note t = capacity_retry_terminates [OF centers, where avg = 1 and mx = 1000
      and scan = stack_query_local_neighbor_idxs and tr = "[]" and c = 3
      and refine = stack_query_three_nn_local_idxs]
  from t over det centers show ?thesis by blast
qed

text \<open>
  Claim C2. For a consumed total \<open>c\<close> that is not negative and a positive number \<open>n\<close>
  of query centers, the recomputed estimate \<open>c div n + (if c mod n > 0 then 1 else 0)\<close>
  is \<open>ceiling (c / n)\<close>. Whenever \<open>forward\<close> returns the estimate \<open>a\<close>, the
  accepted pass fits its buffer and its consumed total is at most \<open>a\<close> times the number
  of query centers.
\<close>

theorem recomputed_estimate_is_ceiling:
  "(0 \<le> c \<and> 0 < n \<longrightarrow>
      recompute_avg c n = Inr \<lceil>real_of_int c / real_of_int n\<rceil> \<and>
      \<lceil>real_of_int c / real_of_int n\<rceil> =
        c div n + (if c mod n > 0 then 1 else 0)) \<and>
   (forward mx scan refine inp = Some (Inr (dists, idxs, a)) \<longrightarrow>
      (\<exists>tr p. gather_loop mx scan inp (avg_length_of_neighbor_idxs inp) [] = Some (tr, Inr (p, a)) \<and>
               p_cumsum p \<le> p_num_max_sum_points p \<and>
               p_cumsum p \<le> a * int (length (new_xyz inp))))"
proof (intro conjI impI)
  assume h: "0 \<le> c \<and> 0 < n"
  then have n: "0 < n" ..
  show "recompute_avg c n = Inr \<lceil>real_of_int c / real_of_int n\<rceil>"
    using n by (rule recompute_avg_ceiling)
  then show "\<lceil>real_of_int c / real_of_int n\<rceil> = c div n + (if c mod n > 0 then 1 else 0)"
    using n by (simp add: recompute_avg_def)
next
  assume "forward mx scan refine inp = Some (Inr (dists, idxs, a))"
  from forward_result [OF this] obtain tr p
    where run: "gather_loop mx scan inp (avg_length_of_neighbor_idxs inp) [] = Some (tr, Inr (p, a))"
    by blast
  from gather_loop_log [OF run]
  have fit: "p_cumsum p \<le> p_num_max_sum_points p" and n: "new_xyz inp \<noteq> []"
    and a: "recompute_avg (p_cumsum p) (int (length (new_xyz inp))) = Inr a"
    by auto
  have "p_cumsum p \<le> a * int (length (new_xyz inp))"
    using n a by (intro recompute_avg_covers) simp_all
  with run fit
  show "\<exists>tr p. gather_loop mx scan inp (avg_length_of_neighbor_idxs inp) [] = Some (tr, Inr (p, a)) \<and>
               p_cumsum p \<le> p_num_max_sum_points p \<and>
               p_cumsum p \<le> a * int (length (new_xyz inp))"
    by blast
qed

text \<open>
  The worked input: 3 entries consumed by 2 centers give the estimate 2, and
  \<open>2 * 2\<close> is at least 3.
\<close>

theorem recomputed_estimate_is_ceiling_witness:
  "(0::int) \<le> 3 \<and> (0::int) < 2 \<and>
   forward 1000 stack_query_local_neighbor_idxs stack_query_three_nn_local_idxs (cluster_input 1) =
     Some (Inr ([[[0, 1, 1]], [[0, 0, 0]]], [[[0, 1, 2]], [[- 1, - 1, - 1]]], 2)) \<and>
   recompute_avg 3 2 = Inr \<lceil>real_of_int 3 / real_of_int 2\<rceil> \<and>
   \<lceil>real_of_int 3 / real_of_int 2\<rceil> = (3::int) div 2 + (if (3::int) mod 2 > 0 then 1 else 0) \<and>
   (\<exists>tr p. gather_loop 1000 stack_query_local_neighbor_idxs (cluster_input 1)
              (avg_length_of_neighbor_idxs (cluster_input 1)) [] = Some (tr, Inr (p, 2)) \<and>
           p_cumsum p \<le> p_num_max_sum_points p \<and>
           p_cumsum p \<le> 2 * int (length (new_xyz (cluster_input 1))))"
proof -
  have h: "(0::int) \<le> 3 \<and> (0::int) < 2" by simp
  note t = recomputed_estimate_is_ceiling [where c = 3 and n = 2 and mx = 1000
      and scan = stack_query_local_neighbor_idxs
      and refine = stack_query_three_nn_local_idxs and inp = "cluster_input 1"
      and dists = "[[[0, 1, 1]], [[0, 0, 0]]]" and idxs = "[[[0, 1, 2]], [[- 1, - 1, - 1]]]"
      and a = 2]
  from t h cluster_forward show ?thesis by blast
qed



text \<open>
  Claim C4. Let a run have returned the estimate \<open>a\<close> from the accepted pass \<open>p\<close>,
  and let the scan be deterministic: on every pass it reports the same consumed total
  \<open>c\<close>, a count and so not negative, and the same slice records \<open>sl\<close>. Then the run
  on the same input with the initial estimate \<open>a\<close> is over after a single pass, which is
  accepted, and that pass has the consumed total and the slice records of \<open>p\<close>.
\<close>

theorem converged_estimate_idempotent:
  assumes prior: "gather_loop mx scan inp (avg_length_of_neighbor_idxs inp) [] = Some (tr, Inr (p, a))"
    and det: "\<forall>e. so_cumsum (scan (scan_call inp e)) = c \<and>
                  so_start_len (scan (scan_call inp e)) = sl"
    and count: "0 \<le> c"
  shows "gather_loop mx scan (inp\<lparr>avg_length_of_neighbor_idxs := a\<rparr>)
           (avg_length_of_neighbor_idxs (inp\<lparr>avg_length_of_neighbor_idxs := a\<rparr>)) [] =
           Some ([gather_pass scan (inp\<lparr>avg_length_of_neighbor_idxs := a\<rparr>) a],
                 Inr (gather_pass scan (inp\<lparr>avg_length_of_neighbor_idxs := a\<rparr>) a, a)) \<and>
         p_cumsum (gather_pass scan (inp\<lparr>avg_length_of_neighbor_idxs := a\<rparr>) a) = p_cumsum p \<and>
         p_start_len (gather_pass scan (inp\<lparr>avg_length_of_neighbor_idxs := a\<rparr>) a) = p_start_len p"
proof -
  let ?n = "int (length (new_xyz inp))"
  let ?inp = "inp\<lparr>avg_length_of_neighbor_idxs := a\<rparr>"
  have same: "scan_call ?inp e = scan_call inp e" for e by (simp add: scan_call_def)
  from gather_loop_log [OF prior] have
    form: "\<forall>q \<in> set tr. \<exists>e. 0 \<le> e * ?n \<and> e * ?n \<le> int mx \<and> q = gather_pass scan inp e"
    and ne: "tr \<noteq> []" and last: "last tr = p"
    and fit: "p_cumsum p \<le> p_num_max_sum_points p"
    and centers: "new_xyz inp \<noteq> []"
    and a: "recompute_avg (p_cumsum p) ?n = Inr a"
    by auto
  have "p \<in> set tr" using ne last by (metis last_in_set)
  with form obtain e where room: "e * ?n \<le> int mx" and p: "p = gather_pass scan inp e"
    by blast
  have pc: "p_cumsum p = c" and ps: "p_start_len p = sl" using det p by simp_all
  have n: "0 < ?n" using centers by simp
  have cover: "c \<le> a * ?n" using recompute_avg_covers [OF n] a pc by simp
  have nonneg: "0 \<le> a * ?n" using cover count by linarith
  have "c \<le> e * ?n" using fit p pc by simp
  then have "a \<le> e" using n a pc by (intro recompute_avg_le [of ?n c e a]) simp_all
  then have "a * ?n \<le> e * ?n" using n by (simp add: mult_right_mono)
  with room have room': "a * ?n \<le> int mx" by linarith
  have "gather_loop mx scan ?inp a [] =
          Some ([] @ [gather_pass scan ?inp a], Inr (gather_pass scan ?inp a, a))"
    using centers nonneg room' cover a pc det
    by (intro gather_loop_accept) (simp_all add: same)
  then show ?thesis using det pc ps by (simp add: same)
qed

text \<open>
  The worked input: the run from the estimate 1 returns 2, and the run from 2 takes one
  pass.
\<close>

theorem converged_estimate_idempotent_witness:
  "gather_loop 1000 stack_query_local_neighbor_idxs (cluster_input 1)
     (avg_length_of_neighbor_idxs (cluster_input 1)) [] =
     Some ([cluster_pass 1 1, cluster_pass 1 2], Inr (cluster_pass 1 2, 2)) \<and>
   (\<forall>e. so_cumsum (stack_query_local_neighbor_idxs (scan_call (cluster_input 1) e)) = 3 \<and>
        so_start_len (stack_query_local_neighbor_idxs (scan_call (cluster_input 1) e)) =
          [(0, 3), (3, 0)]) \<and>
   (0::int) \<le> 3 \<and>
   gather_loop 1000 stack_query_local_neighbor_idxs (cluster_input 2)
     (avg_length_of_neighbor_idxs (cluster_input 2)) [] =
     Some ([cluster_pass 2 2], Inr (cluster_pass 2 2, 2)) \<and>
   p_cumsum (cluster_pass 2 2) = p_cumsum (cluster_pass 1 2) \<and>
   p_start_len (cluster_pass 2 2) = p_start_len (cluster_pass 1 2)"
proof -
  have det: "\<forall>e. so_cumsum (stack_query_local_neighbor_idxs (scan_call (cluster_input 1) e)) = 3 \<and>
        so_start_len (stack_query_local_neighbor_idxs (scan_call (cluster_input 1) e)) =
          [(0, 3), (3, 0)]"
    by (simp add: cluster_scan)
  have count: "(0::int) \<le> 3" by simp
  from converged_estimate_idempotent [OF cluster_run det count] cluster_run det
  show ?thesis by simp
qed

text \<open>
  Claim C5. With the refiner of the spec and any scan, the first tensor \<open>forward\<close>
  returns is the element-wise square root of the squared-distance tensor the refiner left;
  every entry is non-negative and its square is the refiner's entry, so it is a distance
  and not a squared distance.
\<close>

theorem grid_distances_are_square_roots:
  assumes "forward mx scan stack_query_three_nn_local_idxs inp = Some (Inr (dists, idxs, a))"
  shows "\<exists>tr p. gather_loop mx scan inp (avg_length_of_neighbor_idxs inp) [] = Some (tr, Inr (p, a)) \<and>
     dists = map (map (map sqrt))
               (ro_new_xyz_grid_dist2 (stack_query_three_nn_local_idxs (refine_call inp p))) \<and>
     map (map (map (\<lambda>d. d\<^sup>2))) dists =
       ro_new_xyz_grid_dist2 (stack_query_three_nn_local_idxs (refine_call inp p)) \<and>
     (\<forall>row \<in> set dists. \<forall>slots \<in> set row. \<forall>d \<in> set slots. 0 \<le> d)"
proof -
  from forward_result [OF assms] obtain tr p where
    run: "gather_loop mx scan inp (avg_length_of_neighbor_idxs inp) [] = Some (tr, Inr (p, a))"
    and d: "dists = sqrt_grid
              (ro_new_xyz_grid_dist2 (stack_query_three_nn_local_idxs (refine_call inp p)))"
    by blast
  let ?D = "ro_new_xyz_grid_dist2 (stack_query_three_nn_local_idxs (refine_call inp p))"
  have nonneg: "0 \<le> x" if "row \<in> set ?D" "slots \<in> set row" "x \<in> set slots" for row slots x
  proof (rule refiner_dist2_nonneg [OF _ that])
    fix row slots x
    assume "row \<in> set (ra_new_xyz_grid_dist2 (refine_call inp p))" "slots \<in> set row" "x \<in> set slots"
    then show "0 \<le> (x::real)" by (auto simp add: refine_call_def dest: new_zeros_grid_nonneg)
  qed
  have 1: "dists = map (map (map sqrt)) ?D" using d by (simp add: sqrt_grid_def)
  have 2: "map (map (map (\<lambda>d. d\<^sup>2))) dists = ?D"
    unfolding d using nonneg by (rule sqrt_grid_squares)
  have 3: "\<forall>row \<in> set dists. \<forall>slots \<in> set row. \<forall>d \<in> set slots. 0 \<le> d"
    unfolding d using sqrt_grid_nonneg [of ?D] nonneg by blast
  from run 1 2 3 show ?thesis by blast
qed

text \<open>
  The worked input: the squared distances 0, 1, 1 of the first center and the untouched
  zeros of the second.
\<close>

theorem grid_distances_are_square_roots_witness:
  "forward 1000 stack_query_local_neighbor_idxs stack_query_three_nn_local_idxs (cluster_input 1) =
     Some (Inr ([[[0, 1, 1]], [[0, 0, 0]]], [[[0, 1, 2]], [[- 1, - 1, - 1]]], 2)) \<and>
   (\<exists>tr p. gather_loop 1000 stack_query_local_neighbor_idxs (cluster_input 1)
              (avg_length_of_neighbor_idxs (cluster_input 1)) [] = Some (tr, Inr (p, 2)) \<and>
      [[[0, 1, 1]], [[0, 0, 0]]] = map (map (map sqrt))
        (ro_new_xyz_grid_dist2 (stack_query_three_nn_local_idxs (refine_call (cluster_input 1) p))) \<and>
      map (map (map (\<lambda>d. d\<^sup>2))) [[[0, 1, 1]], [[0, 0, 0]]] =
        ro_new_xyz_grid_dist2 (stack_query_three_nn_local_idxs (refine_call (cluster_input 1) p)))"
proof -
  from grid_distances_are_square_roots [OF cluster_forward] obtain tr p where
    r: "gather_loop 1000 stack_query_local_neighbor_idxs (cluster_input 1)
          (avg_length_of_neighbor_idxs (cluster_input 1)) [] = Some (tr, Inr (p, 2))"
    and s: "[[[0, 1, 1]], [[0, 0, 0]]] = map (map (map sqrt))
        (ro_new_xyz_grid_dist2 (stack_query_three_nn_local_idxs (refine_call (cluster_input 1) p)))"
    and q: "map (map (map (\<lambda>d. d\<^sup>2))) [[[0, 1, 1]], [[0, 0, 0]]] =
        ro_new_xyz_grid_dist2 (stack_query_three_nn_local_idxs (refine_call (cluster_input 1) p))"
    by (elim exE conjE)
  show ?thesis
    by (intro conjI exI) (rule cluster_forward r s q)+
qed

text \<open>
  Claim C6. A pass at the estimate \<open>e\<close> hands the scan a candidate buffer of zeros of
  the capacity of the pass, slice records that are all zero, and a counter at zero: the
  call depends on the input and on the estimate alone, so nothing an earlier pass wrote
  reaches it. In a run that leaves the loop this holds of every pass of the log.
\<close>

theorem retry_starts_fresh:
  "sa_stack_neighbor_idxs (p_call (gather_pass scan inp e)) =
     replicate (nat (e * int (length (new_xyz inp)))) 0 \<and>
   sa_start_len (p_call (gather_pass scan inp e)) = replicate (length (new_xyz inp)) (0, 0) \<and>
   sa_cumsum (p_call (gather_pass scan inp e)) = 0 \<and>
   p_call (gather_pass scan inp e) = scan_call inp e \<and>
   (gather_loop mx scan inp (avg_length_of_neighbor_idxs inp) [] = Some (tr, r) \<longrightarrow>
     (\<forall>q \<in> set tr.
        sa_stack_neighbor_idxs (p_call q) = replicate (nat (p_num_max_sum_points q)) 0 \<and>
        sa_start_len (p_call q) = replicate (length (new_xyz inp)) (0, 0) \<and>
        sa_cumsum (p_call q) = 0 \<and>
        p_call q = scan_call inp (sa_avg_length_of_neighbor_idxs (p_call q)) \<and>
        q = gather_pass scan inp (sa_avg_length_of_neighbor_idxs (p_call q))))"
proof (intro conjI impI ballI)
  fix q
  assume run: "gather_loop mx scan inp (avg_length_of_neighbor_idxs inp) [] = Some (tr, r)"
    and "q \<in> set tr"
  with gather_loop_log [OF run] obtain e where q: "q = gather_pass scan inp e" by auto
  show "sa_stack_neighbor_idxs (p_call q) = replicate (nat (p_num_max_sum_points q)) 0"
    using q by (simp add: scan_call_fresh)
  show "sa_start_len (p_call q) = replicate (length (new_xyz inp)) (0, 0)"
    using q by (simp add: scan_call_fresh)
  show "sa_cumsum (p_call q) = 0"
    using q by (simp add: scan_call_fresh)
  show "p_call q = scan_call inp (sa_avg_length_of_neighbor_idxs (p_call q))"
    using q by (simp add: scan_call_fresh)
  show "q = gather_pass scan inp (sa_avg_length_of_neighbor_idxs (p_call q))"
    using q by (simp add: scan_call_fresh)
qed (simp_all add: scan_call_fresh)

text \<open>
  The worked input from the estimate 1: two zeros for the first pass, four for the second,
  whatever the first pass wrote.
\<close>

theorem retry_starts_fresh_witness:
  "gather_loop 1000 stack_query_local_neighbor_idxs (cluster_input 1)
     (avg_length_of_neighbor_idxs (cluster_input 1)) [] =
     Some ([cluster_pass 1 1, cluster_pass 1 2], Inr (cluster_pass 1 2, 2)) \<and>
   sa_stack_neighbor_idxs (p_call (cluster_pass 1 1)) = [0, 0] \<and>
   sa_stack_neighbor_idxs (p_call (cluster_pass 1 2)) = [0, 0, 0, 0] \<and>
   sa_start_len (p_call (cluster_pass 1 2)) = [(0, 0), (0, 0)] \<and>
   sa_cumsum (p_call (cluster_pass 1 2)) = 0 \<and>
   p_call (cluster_pass 1 2) = scan_call (cluster_input 1) 2"
proof -
  note t = retry_starts_fresh [where scan = stack_query_local_neighbor_idxs
      and inp = "cluster_input 1" and e = 2 and mx = 1000
      and tr = "[cluster_pass 1 1, cluster_pass 1 2]" and r = "Inr (cluster_pass 1 2, 2)"]
  from t cluster_run have "\<forall>q \<in> set [cluster_pass 1 1, cluster_pass 1 2].
        sa_stack_neighbor_idxs (p_call q) = replicate (nat (p_num_max_sum_points q)) 0 \<and>
        sa_start_len (p_call q) = replicate (length (new_xyz (cluster_input 1))) (0, 0) \<and>
        sa_cumsum (p_call q) = 0 \<and>
        p_call q = scan_call (cluster_input 1) (sa_avg_length_of_neighbor_idxs (p_call q)) \<and>
        q = gather_pass stack_query_local_neighbor_idxs (cluster_input 1)
              (sa_avg_length_of_neighbor_idxs (p_call q))"
    by blast
  with cluster_run show ?thesis by (simp add: scan_call_fresh eval_nat_numeral)
qed

text \<open>
  Claim C7 says that a call with mismatched batch-count lengths, a non-positive radius, a
  non-positive number of grids or a non-positive initial estimate fails before any scan
  begins and returns nothing. \<open>forward\<close> checks none of these. On the worked input
  with the initial estimate 0 the empty candidate buffer is allocated, the scan runs twice
  and the call returns distances, indices and the estimate 2.
\<close>

theorem inputs_are_not_validated_counterexample:
  "avg_length_of_neighbor_idxs (cluster_input 0) \<le> 0 \<and>
   gather_loop 1000 stack_query_local_neighbor_idxs (cluster_input 0)
     (avg_length_of_neighbor_idxs (cluster_input 0)) [] =
     Some ([cluster_pass 0 0, cluster_pass 0 2], Inr (cluster_pass 0 2, 2)) \<and>
   forward 1000 stack_query_local_neighbor_idxs stack_query_three_nn_local_idxs (cluster_input 0) =
     Some (Inr ([[[0, 1, 1]], [[0, 0, 0]]], [[[0, 1, 2]], [[- 1, - 1, - 1]]], 2))"
  using cluster_run_from_zero
  by (simp add: forward_accepted [OF cluster_run_from_zero] cluster_refine_call sqrt_grid_def)

text \<open>
  Claim C7, amended. \<open>forward\<close> validates none of its arguments; what stops a call
  before its first scan is the allocation of the candidate buffer of initial estimate
  times number of query centers entries. A negative initial estimate on an input with at
  least one query center makes that size negative: the allocation raises, no scan runs and
  nothing is returned. The same happens for a size the allocator cannot provide. Whenever
  that buffer is allocated, and for the initial estimate 0 it always is, the first turn of
  the loop runs the scan at the initial estimate, whatever the batch counts, the radius
  and the number of grids are: the call then raises, returns or retries with that pass in
  its log, and a run that leaves the loop has that pass first in its log.
\<close>

theorem candidate_buffer_decides_first_scan:
  "(avg_length_of_neighbor_idxs inp < 0 \<and> new_xyz inp \<noteq> [] \<longrightarrow>
      gather_loop mx scan inp (avg_length_of_neighbor_idxs inp) [] = Some ([], Inl RuntimeError) \<and>
      forward mx scan refine inp = Some (Inl RuntimeError)) \<and>
   (int mx < avg_length_of_neighbor_idxs inp * int (length (new_xyz inp)) \<longrightarrow>
      gather_loop mx scan inp (avg_length_of_neighbor_idxs inp) [] = Some ([], Inl RuntimeError) \<and>
      forward mx scan refine inp = Some (Inl RuntimeError)) \<and>
   (0 \<le> avg_length_of_neighbor_idxs inp * int (length (new_xyz inp)) \<and>
    avg_length_of_neighbor_idxs inp * int (length (new_xyz inp)) \<le> int mx \<longrightarrow>
      gather_loop mx scan inp (avg_length_of_neighbor_idxs inp) [] =
        (case recompute_avg (p_cumsum (gather_pass scan inp (avg_length_of_neighbor_idxs inp)))
                (int (length (new_xyz inp))) of
           Inl e \<Rightarrow> Some ([gather_pass scan inp (avg_length_of_neighbor_idxs inp)], Inl e)
         | Inr a' \<Rightarrow>
             if p_cumsum (gather_pass scan inp (avg_length_of_neighbor_idxs inp))
                  \<le> p_num_max_sum_points (gather_pass scan inp (avg_length_of_neighbor_idxs inp))
             then Some ([gather_pass scan inp (avg_length_of_neighbor_idxs inp)],
                        Inr (gather_pass scan inp (avg_length_of_neighbor_idxs inp), a'))
             else gather_loop mx scan inp a'
                    [gather_pass scan inp (avg_length_of_neighbor_idxs inp)]) \<and>
      (\<forall>tr r. gather_loop mx scan inp (avg_length_of_neighbor_idxs inp) [] = Some (tr, r) \<longrightarrow>
         tr \<noteq> [] \<and> hd tr = gather_pass scan inp (avg_length_of_neighbor_idxs inp))) \<and>
   (avg_length_of_neighbor_idxs inp = 0 \<longrightarrow>
      0 \<le> avg_length_of_neighbor_idxs inp * int (length (new_xyz inp)) \<and>
      avg_length_of_neighbor_idxs inp * int (length (new_xyz inp)) \<le> int mx)"
proof (intro conjI impI allI)
  let ?avg = "avg_length_of_neighbor_idxs inp"
  assume h: "?avg < 0 \<and> new_xyz inp \<noteq> []"
  then have "?avg * int (length (new_xyz inp)) < 0"
    by (simp add: mult_neg_pos)
  then show run: "gather_loop mx scan inp ?avg [] = Some ([], Inl RuntimeError)"
    by (rule gather_loop_negative)
  then show "forward mx scan refine inp = Some (Inl RuntimeError)"
    by (rule forward_raised)
next
  let ?avg = "avg_length_of_neighbor_idxs inp"
  assume "int mx < ?avg * int (length (new_xyz inp))"
  then have "new_zeros_raises mx (?avg * int (length (new_xyz inp)))"
    by (simp add: new_zeros_raises_def)
  then show run: "gather_loop mx scan inp ?avg [] = Some ([], Inl RuntimeError)"
    by (rule gather_loop_raises)
  then show "forward mx scan refine inp = Some (Inl RuntimeError)"
    by (rule forward_raised)
next
  let ?avg = "avg_length_of_neighbor_idxs inp"
  let ?n = "int (length (new_xyz inp))"
  let ?p = "gather_pass scan inp ?avg"
  assume h: "0 \<le> ?avg * ?n \<and> ?avg * ?n \<le> int mx"
  then have alloc: "\<not> new_zeros_raises mx (?avg * ?n)"
    by (simp add: new_zeros_raises_def)
  show step: "gather_loop mx scan inp ?avg [] =
        (case recompute_avg (p_cumsum ?p) ?n of
           Inl e \<Rightarrow> Some ([?p], Inl e)
         | Inr a' \<Rightarrow>
             if p_cumsum ?p \<le> p_num_max_sum_points ?p
             then Some ([?p], Inr (?p, a'))
             else gather_loop mx scan inp a' [?p])"
    using alloc by (subst gather_loop.simps) (simp split: sum.split)
  fix tr r
  assume run: "gather_loop mx scan inp ?avg [] = Some (tr, r)"
  have "\<exists>ps. tr = ?p # ps"
  proof (cases "recompute_avg (p_cumsum ?p) ?n")
    case (Inl e)
    with run step show ?thesis by auto
  next
    case (Inr a')
    show ?thesis
    proof (cases "p_cumsum ?p \<le> p_num_max_sum_points ?p")
      case True
      with run step Inr show ?thesis by auto
    next
      case False
      with run step Inr
      have "gather_loop mx scan inp a' ([] @ [?p]) = Some (tr, r)" by simp
      from gather_loop_log [OF this] show ?thesis by auto
    qed
  qed
  then show "tr \<noteq> []" and "hd tr = ?p" by auto
next
  assume "avg_length_of_neighbor_idxs inp = 0"
  then show "0 \<le> avg_length_of_neighbor_idxs inp * int (length (new_xyz inp))"
    and "avg_length_of_neighbor_idxs inp * int (length (new_xyz inp)) \<le> int mx"
    by simp_all
qed

text \<open>
  The worked input with the initial estimate \<open>- 1\<close> and, on a machine that provides
  1000 entries, with the initial estimate 501: both raise with an empty log. With the
  initial estimate 0 the log begins with the scan at 0.
\<close>

theorem candidate_buffer_decides_first_scan_witness:
  "avg_length_of_neighbor_idxs (cluster_input (- 1)) < 0 \<and>
   new_xyz (cluster_input (- 1)) \<noteq> [] \<and>
   gather_loop 1000 stack_query_local_neighbor_idxs (cluster_input (- 1))
     (avg_length_of_neighbor_idxs (cluster_input (- 1))) [] = Some ([], Inl RuntimeError) \<and>
   forward 1000 stack_query_local_neighbor_idxs stack_query_three_nn_local_idxs
     (cluster_input (- 1)) = Some (Inl RuntimeError) \<and>
   int 1000 < avg_length_of_neighbor_idxs (cluster_input 501)
                * int (length (new_xyz (cluster_input 501))) \<and>
   gather_loop 1000 stack_query_local_neighbor_idxs (cluster_input 501)
     (avg_length_of_neighbor_idxs (cluster_input 501)) [] = Some ([], Inl RuntimeError) \<and>
   forward 1000 stack_query_local_neighbor_idxs stack_query_three_nn_local_idxs
     (cluster_input 501) = Some (Inl RuntimeError) \<and>
   avg_length_of_neighbor_idxs (cluster_input 0) = 0 \<and>
   0 \<le> avg_length_of_neighbor_idxs (cluster_input 0)
          * int (length (new_xyz (cluster_input 0))) \<and>
   avg_length_of_neighbor_idxs (cluster_input 0) * int (length (new_xyz (cluster_input 0)))
     \<le> int 1000 \<and>
   gather_loop 1000 stack_query_local_neighbor_idxs (cluster_input 0)
     (avg_length_of_neighbor_idxs (cluster_input 0)) [] =
     Some ([cluster_pass 0 0, cluster_pass 0 2], Inr (cluster_pass 0 2, 2)) \<and>
   [cluster_pass 0 0, cluster_pass 0 2] \<noteq> [] \<and>
   hd [cluster_pass 0 0, cluster_pass 0 2] =
     gather_pass stack_query_local_neighbor_idxs (cluster_input 0)
       (avg_length_of_neighbor_idxs (cluster_input 0))"
proof -
  have neg: "avg_length_of_neighbor_idxs (cluster_input (- 1)) < 0 \<and>
      new_xyz (cluster_input (- 1)) \<noteq> []" by simp
  have big: "int 1000 < avg_length_of_neighbor_idxs (cluster_input 501)
                * int (length (new_xyz (cluster_input 501)))" by simp
  have zero: "avg_length_of_neighbor_idxs (cluster_input 0) = 0" by simp
  note t1 = candidate_buffer_decides_first_scan [where inp = "cluster_input (- 1)"
      and mx = 1000 and scan = stack_query_local_neighbor_idxs
      and refine = stack_query_three_nn_local_idxs]
  note t2 = candidate_buffer_decides_first_scan [where inp = "cluster_input 501"
      and mx = 1000 and scan = stack_query_local_neighbor_idxs
      and refine = stack_query_three_nn_local_idxs]
  note t3 = candidate_buffer_decides_first_scan [where inp = "cluster_input 0"
      and mx = 1000 and scan = stack_query_local_neighbor_idxs
      and refine = stack_query_three_nn_local_idxs]
  from t1 neg have a: "gather_loop 1000 stack_query_local_neighbor_idxs (cluster_input (- 1))
     (avg_length_of_neighbor_idxs (cluster_input (- 1))) [] = Some ([], Inl RuntimeError) \<and>
   forward 1000 stack_query_local_neighbor_idxs stack_query_three_nn_local_idxs
     (cluster_input (- 1)) = Some (Inl RuntimeError)" by blast
  from t2 big have b: "gather_loop 1000 stack_query_local_neighbor_idxs (cluster_input 501)
     (avg_length_of_neighbor_idxs (cluster_input 501)) [] = Some ([], Inl RuntimeError) \<and>
   forward 1000 stack_query_local_neighbor_idxs stack_query_three_nn_local_idxs
     (cluster_input 501) = Some (Inl RuntimeError)" by blast
  from t3 zero have room: "0 \<le> avg_length_of_neighbor_idxs (cluster_input 0)
          * int (length (new_xyz (cluster_input 0))) \<and>
      avg_length_of_neighbor_idxs (cluster_input 0) * int (length (new_xyz (cluster_input 0)))
        \<le> int 1000" by blast
  from t3 room have "\<forall>tr r. gather_loop 1000 stack_query_local_neighbor_idxs (cluster_input 0)
       (avg_length_of_neighbor_idxs (cluster_input 0)) [] = Some (tr, r) \<longrightarrow>
     tr \<noteq> [] \<and> hd tr = gather_pass stack_query_local_neighbor_idxs (cluster_input 0)
       (avg_length_of_neighbor_idxs (cluster_input 0))" by blast
  with cluster_run_from_zero have c: "[cluster_pass 0 0, cluster_pass 0 2] \<noteq> [] \<and>
   hd [cluster_pass 0 0, cluster_pass 0 2] =
     gather_pass stack_query_local_neighbor_idxs (cluster_input 0)
       (avg_length_of_neighbor_idxs (cluster_input 0))" by blast
  from neg big zero a b room c cluster_run_from_zero show ?thesis by blast
qed

text \<open>
  Claim C8. With the refiner of the spec and any scan: if the candidate slice of query
  center \<open>c\<close> in the accepted pass is empty, then for every grid sample \<open>g\<close> of \<open>c\<close>
  the three index slots \<open>forward\<close> returns are all \<open>- 1\<close>, the value the index
  tensor was filled with before the refiner ran.
\<close>

theorem empty_slice_keeps_minus_one:
  assumes run: "gather_loop mx scan inp (avg_length_of_neighbor_idxs inp) [] = Some (tr, Inr (p, a))"
    and empty: "candidate_slice (slice_to (p_stack_neighbor_idxs p) (p_cumsum p))
                  (p_start_len p ! c) = []"
    and c: "c < length (new_xyz_grid_centers inp)"
    and g: "g < length (new_xyz_grid_centers inp ! c)"
  shows "\<exists>dists idxs.
           forward mx scan stack_query_three_nn_local_idxs inp = Some (Inr (dists, idxs, a)) \<and>
           idxs ! c ! g = [- 1, - 1, - 1]"
proof -
  let ?a = "refine_call inp p"
  have "refine_sample ?a c g = []"
    using empty by (intro refine_sample_empty_slice) (simp add: refine_call_def)
  moreover have "ra_new_xyz_grid_idxs ?a ! c ! g = [- 1, - 1, - 1]"
    using c g by (simp add: refine_call_def new_fill_grid_nth)
  moreover have "c < length (ra_new_xyz_grid_idxs ?a)" "g < length (ra_new_xyz_grid_idxs ?a ! c)"
    using c g by (simp_all add: refine_call_def new_fill_grid_def)
  ultimately have "ro_new_xyz_grid_idxs (stack_query_three_nn_local_idxs ?a) ! c ! g =
                     [- 1, - 1, - 1]"
    by (simp add: refiner_idxs_nth fill_slots_nothing)
  with forward_accepted [OF run, where refine = stack_query_three_nn_local_idxs]
  show ?thesis by simp
qed

text \<open>
  The worked input: the second query center has the slice record \<open>(3, 0)\<close>.
\<close>

theorem empty_slice_keeps_minus_one_witness:
  "gather_loop 1000 stack_query_local_neighbor_idxs (cluster_input 1)
     (avg_length_of_neighbor_idxs (cluster_input 1)) [] =
     Some ([cluster_pass 1 1, cluster_pass 1 2], Inr (cluster_pass 1 2, 2)) \<and>
   candidate_slice (slice_to (p_stack_neighbor_idxs (cluster_pass 1 2)) (p_cumsum (cluster_pass 1 2)))
     (p_start_len (cluster_pass 1 2) ! 1) = [] \<and>
   1 < length (new_xyz_grid_centers (cluster_input 1)) \<and>
   0 < length (new_xyz_grid_centers (cluster_input 1) ! 1) \<and>
   (\<exists>dists idxs.
      forward 1000 stack_query_local_neighbor_idxs stack_query_three_nn_local_idxs (cluster_input 1) =
        Some (Inr (dists, idxs, 2)) \<and>
      idxs ! 1 ! 0 = [- 1, - 1, - 1])"
proof -
  have empty: "candidate_slice
      (slice_to (p_stack_neighbor_idxs (cluster_pass 1 2)) (p_cumsum (cluster_pass 1 2)))
      (p_start_len (cluster_pass 1 2) ! 1) = []"
    by (simp add: cluster_scan candidate_slice_def slice_to_def)
  have c: "1 < length (new_xyz_grid_centers (cluster_input 1))" by simp
  have g: "0 < length (new_xyz_grid_centers (cluster_input 1) ! 1)" by simp
  from empty_slice_keeps_minus_one [OF cluster_run empty c g] cluster_run empty c g
  show ?thesis by blast
qed

text \<open>
  Claim C9. With no query center, whatever the other arguments are, the scan runs once
  on empty tensors and the recomputation of the estimate divides by zero: \<open>forward\<close>
  raises \<^verbatim>\<open>ZeroDivisionError\<close> and returns nothing.
\<close>

theorem no_query_center_raises:
  assumes "new_xyz inp = []"
  shows "forward mx scan refine inp = Some (Inl ZeroDivisionError) \<and>
         gather_loop mx scan inp (avg_length_of_neighbor_idxs inp) [] =
           Some ([gather_pass scan inp (avg_length_of_neighbor_idxs inp)], Inl ZeroDivisionError)"
proof -
  have "gather_loop mx scan inp (avg_length_of_neighbor_idxs inp) [] =
          Some ([] @ [gather_pass scan inp (avg_length_of_neighbor_idxs inp)],
                Inl ZeroDivisionError)"
    using assms by (rule gather_loop_no_center)
  then show ?thesis by (simp add: forward_raised)
qed

text \<open>
  The worked input with its query centers removed; the radius, the number of grids and
  the initial estimate are positive and the batch-count vectors have the same length.
\<close>

theorem no_query_center_raises_witness:
  "new_xyz ((cluster_input 1)\<lparr>new_xyz := [], new_xyz_grid_centers := [],
              new_xyz_batch_cnt := [0]\<rparr>) = [] \<and>
   forward 1000 stack_query_local_neighbor_idxs stack_query_three_nn_local_idxs
     ((cluster_input 1)\<lparr>new_xyz := [], new_xyz_grid_centers := [], new_xyz_batch_cnt := [0]\<rparr>) =
     Some (Inl ZeroDivisionError)"
proof -
  have h: "new_xyz ((cluster_input 1)\<lparr>new_xyz := [], new_xyz_grid_centers := [],
              new_xyz_batch_cnt := [0]\<rparr>) = []" by simp
  from no_query_center_raises [OF h, where mx = 1000
      and scan = stack_query_local_neighbor_idxs
      and refine = stack_query_three_nn_local_idxs] h
  show ?thesis by blast
qed




end
